theory Spec2Isabelle
  imports Main "HOL-Library.Sublist"
begin

section \<open>JavaScript values\<close>

text \<open>
  The deploy webhook server is one JavaScript module (\<^verbatim>\<open>server.js\<close>). The values it
  handles are JSON values, header values and \<^verbatim>\<open>undefined\<close>. A JavaScript string is
  modelled by its list of code units; the code units are those of an HTTP header value
  (Node decodes headers as latin1), one \<^typ>\<open>char\<close> each.
\<close>

datatype jsval =
    JUndefined
  | JNull
  | JBool bool
  | JNum int
  | JStr string
  | JArr "jsval list"
  | JObj "(string \<times> jsval) list"

datatype js_error =
    Error string
  | TypeError string
  | RangeError string
  | SyntaxError string

fun message :: "js_error \<Rightarrow> string" where
  "message (Error m) = m"
| "message (TypeError m) = m"
| "message (RangeError m) = m"
| "message (SyntaxError m) = m"

text \<open>\<^verbatim>\<open>!v\<close> is \<open>\<not> truthy v\<close>.\<close>

fun truthy :: "jsval \<Rightarrow> bool" where
  "truthy JUndefined = False"
| "truthy JNull = False"
| "truthy (JBool b) = b"
| "truthy (JNum n) = (n \<noteq> 0)"
| "truthy (JStr s) = (s \<noteq> [])"
| "truthy (JArr xs) = True"
| "truthy (JObj kvs) = True"

fun typeof :: "jsval \<Rightarrow> string" where
  "typeof JUndefined = ''undefined''"
| "typeof JNull = ''object''"
| "typeof (JBool b) = ''boolean''"
| "typeof (JNum n) = ''number''"
| "typeof (JStr s) = ''string''"
| "typeof (JArr xs) = ''object''"
| "typeof (JObj kvs) = ''object''"

text \<open>
  Reading a property \<^verbatim>\<open>v.key\<close>, for the keys the module reads (\<^verbatim>\<open>ref\<close>, \<^verbatim>\<open>scripts\<close>,
  \<^verbatim>\<open>build\<close>; none of them is a property of a built-in prototype): a TypeError on
  \<^verbatim>\<open>null\<close> and \<^verbatim>\<open>undefined\<close>, the own property of an object, \<^verbatim>\<open>undefined\<close> otherwise.
\<close>

fun get_prop :: "jsval \<Rightarrow> string \<Rightarrow> js_error + jsval" where
  "get_prop JUndefined k =
     Inl (TypeError (''Cannot read properties of undefined (reading '' @ [CHR 0x27] @ k @ [CHR 0x27] @ '')''))"
| "get_prop JNull k =
     Inl (TypeError (''Cannot read properties of null (reading '' @ [CHR 0x27] @ k @ [CHR 0x27] @ '')''))"
| "get_prop (JObj kvs) k = (case map_of kvs k of None \<Rightarrow> Inr JUndefined | Some v \<Rightarrow> Inr v)"
| "get_prop v k = Inr JUndefined"

section \<open>Buffers and the signature verifier\<close>

text \<open>
  \<^verbatim>\<open>Buffer.from(s)\<close> encodes a string in UTF-8: a code unit below 128 is one byte, a
  code unit from 128 to 255 is two bytes.
\<close>

definition utf8_unit :: "char \<Rightarrow> char list" where
  "utf8_unit c =
     (if (of_char c :: nat) < 128 then [c]
      else [char_of (192 + (of_char c :: nat) div 64), char_of (128 + (of_char c :: nat) mod 64)])"

definition Buffer_from :: "string \<Rightarrow> char list" where
  "Buffer_from s = concat (map utf8_unit s)"

text \<open>\<^verbatim>\<open>crypto.timingSafeEqual\<close> throws a RangeError on buffers of different lengths.\<close>

definition timingSafeEqual :: "char list \<Rightarrow> char list \<Rightarrow> js_error + bool" where
  "timingSafeEqual a b =
     (if length a \<noteq> length b
      then Inl (RangeError ''Input buffers must have the same byte length'')
      else Inr (a = b))"

text \<open>
  \<^verbatim>\<open>crypto.createHmac('sha256', secret).update(payload).digest('hex')\<close>. HMAC-SHA256
  itself is the crypto library's; it is the parameter \<open>hmac\<close>, from the key and the
  message to the hexadecimal digest. \<^verbatim>\<open>createHmac\<close> throws on a key that is not a
  string, \<^verbatim>\<open>update\<close> on data that is not a string.
\<close>

definition hmac_sha256_hex ::
  "(string \<Rightarrow> string \<Rightarrow> string) \<Rightarrow> jsval \<Rightarrow> jsval \<Rightarrow> js_error + string" where
  "hmac_sha256_hex hmac secret payload =
     (case secret of
        JStr key \<Rightarrow>
          (case payload of
             JStr msg \<Rightarrow> Inr (hmac key msg)
           | _ \<Rightarrow> Inl (TypeError ''The data argument must be of type string''))
      | _ \<Rightarrow> Inl (TypeError ''The key argument must be of type string''))"

definition expectedSignature :: "(string \<Rightarrow> string \<Rightarrow> string) \<Rightarrow> string \<Rightarrow> string \<Rightarrow> string" where
  "expectedSignature hmac secret payload = ''sha256='' @ hmac secret payload"

text \<open>The body of the \<^verbatim>\<open>try\<close> block of \<^verbatim>\<open>verifySignature\<close>.\<close>

definition verifySignature_try ::
  "(string \<Rightarrow> string \<Rightarrow> string) \<Rightarrow> jsval \<Rightarrow> jsval \<Rightarrow> jsval \<Rightarrow> js_error + bool" where
  "verifySignature_try hmac payload signature secret =
     (case hmac_sha256_hex hmac secret payload of
        Inl e \<Rightarrow> Inl e
      | Inr expectedHex \<Rightarrow>
          if \<not> truthy signature \<or> typeof signature \<noteq> ''string'' then Inr False
          else
            (case signature of
               JStr s \<Rightarrow>
                 let sigBuf = Buffer_from s;
                     expBuf = Buffer_from (''sha256='' @ expectedHex)
                 in if length sigBuf \<noteq> length expBuf then Inr False
                    else timingSafeEqual sigBuf expBuf
             | _ \<Rightarrow> Inl (TypeError ''The first argument must be of type string'')))"

text \<open>
  \<^verbatim>\<open>verifySignature(payload, signature, secret)\<close>: the \<^verbatim>\<open>catch\<close> turns every exception
  of the body into \<^verbatim>\<open>false\<close>. The result is \<open>Inl\<close> for an exception that reaches the
  caller, \<open>Inr\<close> for a returned boolean.
\<close>

definition verifySignature ::
  "(string \<Rightarrow> string \<Rightarrow> string) \<Rightarrow> jsval \<Rightarrow> jsval \<Rightarrow> jsval \<Rightarrow> js_error + bool" where
  "verifySignature hmac payload signature secret =
     (case verifySignature_try hmac payload signature secret of
        Inl e \<Rightarrow> Inr False
      | Inr b \<Rightarrow> Inr b)"

text \<open>
  The earlier revision of the verifier (the second listing of the repository): no
  \<^verbatim>\<open>try\<close>, no type check and no length check, so \<^verbatim>\<open>timingSafeEqual\<close> is reached with
  buffers of any lengths.
\<close>

definition verifySignature_v0 ::
  "(string \<Rightarrow> string \<Rightarrow> string) \<Rightarrow> jsval \<Rightarrow> jsval \<Rightarrow> jsval \<Rightarrow> js_error + bool" where
  "verifySignature_v0 hmac payload signature secret =
     (case hmac_sha256_hex hmac secret payload of
        Inl e \<Rightarrow> Inl e
      | Inr expectedHex \<Rightarrow>
          (case signature of
             JStr s \<Rightarrow> timingSafeEqual (Buffer_from s) (Buffer_from (''sha256='' @ expectedHex))
           | _ \<Rightarrow> Inl (TypeError ''The first argument must be of type string'')))"

section \<open>Configuration and environment\<close>

text \<open>One entry of \<^verbatim>\<open>PROJECTS\<close>, as the loader builds it.\<close>

record project =
  dir :: string
  pm2Name :: string
  secret :: string
  branch :: string

text \<open>
  \<^verbatim>\<open>PROJECTS\<close> is a plain object literal (\<^verbatim>\<open>const PROJECTS = {}\<close>), so
  \<^verbatim>\<open>PROJECTS[projectName]\<close> reads an own property, and otherwise a property that every
  object inherits from \<^verbatim>\<open>Object.prototype\<close>; those are functions (and, for
  \<^verbatim>\<open>__proto__\<close>, the prototype object), all truthy, with no \<^verbatim>\<open>dir\<close>, \<^verbatim>\<open>pm2Name\<close>,
  \<^verbatim>\<open>secret\<close> or \<^verbatim>\<open>branch\<close>.
\<close>

datatype lookup = Own project | Inherited | Absent

definition Object_prototype_keys :: "string list" where
  "Object_prototype_keys =
     [''constructor'', ''__defineGetter__'', ''__defineSetter__'', ''hasOwnProperty'',
      ''__lookupGetter__'', ''__lookupSetter__'', ''isPrototypeOf'', ''propertyIsEnumerable'',
      ''toString'', ''valueOf'', ''__proto__'', ''toLocaleString'']"

definition PROJECTS_get :: "(string \<rightharpoonup> project) \<Rightarrow> string \<Rightarrow> lookup" where
  "PROJECTS_get projects name =
     (case projects name of
        Some p \<Rightarrow> Own p
      | None \<Rightarrow> if name \<in> set Object_prototype_keys then Inherited else Absent)"

text \<open>\<^verbatim>\<open>project.secret\<close> and \<^verbatim>\<open>project.branch\<close> (\<open>None\<close> is \<^verbatim>\<open>undefined\<close>).\<close>

fun secret_of :: "lookup \<Rightarrow> jsval" where
  "secret_of (Own p) = JStr (secret p)"
| "secret_of Inherited = JUndefined"
| "secret_of Absent = JUndefined"

fun branch_of :: "lookup \<Rightarrow> string option" where
  "branch_of (Own p) = Some (branch p)"
| "branch_of Inherited = None"
| "branch_of Absent = None"

text \<open>A value inside a template literal.\<close>

fun template :: "string option \<Rightarrow> string" where
  "template None = ''undefined''"
| "template (Some s) = s"

text \<open>
  What a child process does: it closes with an exit code (\<^verbatim>\<open>null\<close> when a signal
  killed it, as the timeout does), its standard output and standard error, or it cannot
  be spawned and emits \<^verbatim>\<open>error\<close>.
\<close>

datatype exec_outcome = Close "int option" string string | ProcessError js_error

text \<open>
  The collaborators of the module: its configuration, the crypto library, the JSON
  functions of the runtime, the path module, the file system and the shell, over a
  world \<open>'w\<close> that the commands change.
\<close>

record 'w env =
  PROJECTS :: "string \<rightharpoonup> project"
  hmac :: "string \<Rightarrow> string \<Rightarrow> string"
  JSON_stringify :: "jsval \<Rightarrow> jsval"
  JSON_parse :: "string \<Rightarrow> js_error + jsval"
  path_join :: "string \<Rightarrow> string \<Rightarrow> string"
  existsSync :: "'w \<Rightarrow> string \<Rightarrow> bool"
  readFile :: "'w \<Rightarrow> string \<Rightarrow> js_error + string"
  exec :: "'w \<Rightarrow> string \<Rightarrow> string \<Rightarrow> exec_outcome \<times> 'w"

text \<open>
  What the module does to its collaborators, in order: a call of the verifier (payload,
  signature, secret) and a subprocess (command, working directory, result).
\<close>

datatype event =
    Verify jsval jsval jsval
  | Exec string string "js_error + string"

fun is_Exec :: "event \<Rightarrow> bool" where
  "is_Exec (Exec c d r) = True"
| "is_Exec (Verify p s k) = False"

fun command :: "event \<Rightarrow> string" where
  "command (Exec c d r) = c"
| "command (Verify p s k) = []"

text \<open>The module's state: the lock flag \<^verbatim>\<open>isDeploying\<close>, the world and the events so far.\<close>

record 'w state =
  isDeploying :: bool
  world :: 'w
  trace :: "event list"

section \<open>The deployment lock\<close>

definition acquireLock :: "'w state \<Rightarrow> (js_error + unit) \<times> 'w state" where
  "acquireLock st =
     (if isDeploying st then (Inl (Error ''Another deployment is in progress''), st)
      else (Inr (), st\<lparr>isDeploying := True\<rparr>))"

definition releaseLock :: "'w state \<Rightarrow> 'w state" where
  "releaseLock st = st\<lparr>isDeploying := False\<rparr>"

section \<open>The command runner\<close>

fun decimal :: "nat \<Rightarrow> string" where
  "decimal n =
     (if n < 10 then [''0123456789'' ! n] else decimal (n div 10) @ [''0123456789'' ! (n mod 10)])"

definition show_code :: "int option \<Rightarrow> string" where
  "show_code code =
     (case code of
        None \<Rightarrow> ''null''
      | Some n \<Rightarrow> if n < 0 then ''-'' @ decimal (nat (- n)) else decimal (nat n))"

text \<open>How \<^verbatim>\<open>execPromise\<close> settles on what the child does.\<close>

definition settle :: "exec_outcome \<Rightarrow> js_error + string" where
  "settle out =
     (case out of
        Close code stdout stderr \<Rightarrow>
          if code = Some 0 then Inr stdout
          else Inl (Error (''Command failed with code '' @ show_code code @ '': '' @ stderr))
      | ProcessError e \<Rightarrow> Inl e)"

definition execPromise ::
  "'w env \<Rightarrow> string \<Rightarrow> string \<Rightarrow> 'w state \<Rightarrow> (js_error + string) \<times> 'w state" where
  "execPromise env cmd cwd st =
     (case exec env (world st) cmd cwd of
        (out, w) \<Rightarrow>
          (settle out, st\<lparr>world := w, trace := trace st @ [Exec cmd cwd (settle out)]\<rparr>))"

section \<open>The deployment pipeline\<close>

definition fetch_cmd :: string where
  "fetch_cmd = ''git fetch --all''"

definition reset_cmd :: "string \<Rightarrow> string" where
  "reset_cmd branch' = ''git reset --hard origin/'' @ branch'"

definition install_cmd :: string where
  "install_cmd = ''npm i''"

definition build_cmd :: string where
  "build_cmd = ''npm run build''"

definition restart_cmd :: "project \<Rightarrow> string" where
  "restart_cmd p = ''pm2 restart '' @ pm2Name p"

text \<open>\<^verbatim>\<open>packageJson.scripts && packageJson.scripts.build\<close>, as a condition.\<close>

definition declares_build :: "jsval \<Rightarrow> js_error + bool" where
  "declares_build packageJson =
     (case get_prop packageJson ''scripts'' of
        Inl e \<Rightarrow> Inl e
      | Inr scripts \<Rightarrow>
          if truthy scripts
          then (case get_prop scripts ''build'' of Inl e \<Rightarrow> Inl e | Inr b \<Rightarrow> Inr (truthy b))
          else Inr False)"

text \<open>
  The manifest check of the \<^verbatim>\<open>try\<close> block: whether the build step is to run, or the
  exception of reading or parsing the manifest.
\<close>

definition build_wanted :: "'w env \<Rightarrow> project \<Rightarrow> 'w \<Rightarrow> js_error + bool" where
  "build_wanted env p w =
     (if existsSync env w (path_join env (dir p) ''package.json'')
      then
        (case readFile env w (path_join env (dir p) ''package.json'') of
           Inl e \<Rightarrow> Inl e
         | Inr text \<Rightarrow>
             (case JSON_parse env text of
                Inl e \<Rightarrow> Inl e
              | Inr packageJson \<Rightarrow> declares_build packageJson))
      else Inr False)"

definition build_step :: "'w env \<Rightarrow> project \<Rightarrow> 'w state \<Rightarrow> (js_error + unit) \<times> 'w state" where
  "build_step env p st =
     (case build_wanted env p (world st) of
        Inl e \<Rightarrow> (Inl e, st)
      | Inr False \<Rightarrow> (Inr (), st)
      | Inr True \<Rightarrow>
          (case execPromise env build_cmd (dir p) st of
             (Inl e, st') \<Rightarrow> (Inl e, st')
           | (Inr out, st') \<Rightarrow> (Inr (), st')))"

text \<open>The \<^verbatim>\<open>try\<close> block of \<^verbatim>\<open>deployProject\<close>.\<close>

definition deploy_try ::
  "'w env \<Rightarrow> string \<Rightarrow> project \<Rightarrow> string \<Rightarrow> 'w state \<Rightarrow> (js_error + string) \<times> 'w state" where
  "deploy_try env name p branch' st =
     (case execPromise env fetch_cmd (dir p) st of
        (Inl e, s1) \<Rightarrow> (Inl e, s1)
      | (Inr o1, s1) \<Rightarrow>
     (case execPromise env (reset_cmd branch') (dir p) s1 of
        (Inl e, s2) \<Rightarrow> (Inl e, s2)
      | (Inr o2, s2) \<Rightarrow>
     (case execPromise env install_cmd (dir p) s2 of
        (Inl e, s3) \<Rightarrow> (Inl e, s3)
      | (Inr o3, s3) \<Rightarrow>
     (case build_step env p s3 of
        (Inl e, s4) \<Rightarrow> (Inl e, s4)
      | (Inr u, s4) \<Rightarrow>
     (case execPromise env (restart_cmd p) (dir p) s4 of
        (Inl e, s5) \<Rightarrow> (Inl e, s5)
      | (Inr o5, s5) \<Rightarrow> (Inr (''Successfully deployed '' @ name), s5))))))"

text \<open>
  \<^verbatim>\<open>deployProject(projectName, branch)\<close>: the two checks before the \<^verbatim>\<open>try\<close>, the
  \<^verbatim>\<open>try\<close> block, and the \<^verbatim>\<open>catch\<close> that restarts the process (an exception of that
  restart is caught and logged) and throws the error it caught. For an inherited
  property \<^verbatim>\<open>project.dir\<close> is \<^verbatim>\<open>undefined\<close>, for which \<^verbatim>\<open>fs.existsSync\<close> is false.
\<close>

definition deployProject ::
  "'w env \<Rightarrow> string \<Rightarrow> string \<Rightarrow> 'w state \<Rightarrow> (js_error + string) \<times> 'w state" where
  "deployProject env name branch' st =
     (case PROJECTS_get (PROJECTS env) name of
        Absent \<Rightarrow> (Inl (Error (''Project '' @ name @ '' not configured'')), st)
      | Inherited \<Rightarrow> (Inl (Error ''Project directory undefined does not exist''), st)
      | Own p \<Rightarrow>
          if \<not> existsSync env (world st) (dir p)
          then (Inl (Error (''Project directory '' @ dir p @ '' does not exist'')), st)
          else
            (case deploy_try env name p branch' st of
               (Inr result, s) \<Rightarrow> (Inr result, s)
             | (Inl error, s) \<Rightarrow>
                 (Inl error, snd (execPromise env (restart_cmd p) (dir p) s))))"

section \<open>The request handler\<close>

record request =
  projectName :: string
  signature :: jsval
  body :: jsval

text \<open>
  How a handling ends: a response (status and JSON body), or an exception that leaves
  the \<^verbatim>\<open>async\<close> handler, for which no response is sent.
\<close>

datatype outcome = Responded nat jsval | Unhandled js_error

text \<open>\<^verbatim>\<open>s.replace(pattern, replacement)\<close> with a string pattern: the first occurrence.\<close>

fun replace_first :: "string \<Rightarrow> string \<Rightarrow> string \<Rightarrow> string" where
  "replace_first pat rep [] = (if pat = [] then rep else [])"
| "replace_first pat rep (c # cs) =
     (if prefix pat (c # cs) then rep @ drop (length pat) (c # cs)
      else c # replace_first pat rep cs)"

text \<open>
  \<^verbatim>\<open>req.body.ref ? req.body.ref.replace('refs/heads/', '') : project.branch\<close>; a truthy
  \<^verbatim>\<open>ref\<close> that is not a string has no \<^verbatim>\<open>replace\<close>.
\<close>

definition effective_branch :: "jsval \<Rightarrow> string option \<Rightarrow> js_error + string option" where
  "effective_branch body' configured =
     (case get_prop body' ''ref'' of
        Inl e \<Rightarrow> Inl e
      | Inr ref \<Rightarrow>
          if truthy ref
          then (case ref of
                  JStr r \<Rightarrow> Inr (Some (replace_first ''refs/heads/'' [] r))
                | _ \<Rightarrow> Inl (TypeError ''req.body.ref.replace is not a function''))
          else Inr configured)"

definition failure :: "js_error \<Rightarrow> jsval" where
  "failure error =
     JObj [(''success'', JBool False),
           (''error'', JStr (if message error \<noteq> [] then message error else ''Deployment failed''))]"

definition invalid_signature :: outcome where
  "invalid_signature = Responded 401 (JObj [(''error'', JStr ''Invalid signature'')])"

definition not_found :: outcome where
  "not_found = Responded 404 (JObj [(''error'', JStr ''Project not found'')])"

definition ignoring :: "string option \<Rightarrow> string option \<Rightarrow> outcome" where
  "ignoring branch' configured =
     Responded 200
       (JObj [(''message'',
               JStr (''Ignoring deployment: branch '' @ template branch' @ '' != '' @ template configured))])"

text \<open>
  The handler up to its \<^verbatim>\<open>try\<close> statement: the response it returns early, or the
  branch it goes on to deploy (\<open>None\<close> is \<^verbatim>\<open>undefined\<close>).
\<close>

definition before_try ::
  "'w env \<Rightarrow> request \<Rightarrow> 'w state \<Rightarrow> (outcome + string option) \<times> 'w state" where
  "before_try env req st =
     (let project = PROJECTS_get (PROJECTS env) (projectName req) in
      if project = Absent then (Inl not_found, st)
      else
        let payload = JSON_stringify env (body req) in
        if \<not> truthy (signature req) then (Inl invalid_signature, st)
        else
          let st1 = st\<lparr>trace := trace st @ [Verify payload (signature req) (secret_of project)]\<rparr> in
          (case verifySignature (hmac env) payload (signature req) (secret_of project) of
             Inl e \<Rightarrow> (Inl (Unhandled e), st1)
           | Inr False \<Rightarrow> (Inl invalid_signature, st1)
           | Inr True \<Rightarrow>
               (case effective_branch (body req) (branch_of project) of
                  Inl e \<Rightarrow> (Inl (Unhandled e), st1)
                | Inr branch' \<Rightarrow>
                    if branch' \<noteq> branch_of project
                    then (Inl (ignoring branch' (branch_of project)), st1)
                    else (Inr branch', st1))))"

text \<open>
  The \<^verbatim>\<open>try\<close> statement of the handler: run to completion, with nothing else in
  between. The \<^verbatim>\<open>catch\<close> is entered from a rejected \<^verbatim>\<open>acquireLock()\<close> as well as
  from a failed \<^verbatim>\<open>deployProject\<close>. An \<^verbatim>\<open>undefined\<close> branch takes the parameter's
  default.
\<close>

definition deploy_locked ::
  "'w env \<Rightarrow> string \<Rightarrow> string option \<Rightarrow> 'w state \<Rightarrow> outcome \<times> 'w state" where
  "deploy_locked env name branch' st =
     (case acquireLock st of
        (Inl error, s1) \<Rightarrow> (Responded 500 (failure error), releaseLock s1)
      | (Inr u, s1) \<Rightarrow>
          (case deployProject env name (case branch' of None \<Rightarrow> ''main'' | Some b \<Rightarrow> b) s1 of
             (Inr result, s2) \<Rightarrow>
               (Responded 200 (JObj [(''success'', JBool True), (''message'', JStr result)]),
                releaseLock s2)
           | (Inl error, s2) \<Rightarrow> (Responded 500 (failure error), releaseLock s2)))"

text \<open>\<^verbatim>\<open>app.post('/deploy/:projectName', ...)\<close>, one request handled on its own.\<close>

definition deploy_handler :: "'w env \<Rightarrow> request \<Rightarrow> 'w state \<Rightarrow> outcome \<times> 'w state" where
  "deploy_handler env req st =
     (case before_try env req st of
        (Inl out, st1) \<Rightarrow> (out, st1)
      | (Inr branch', st1) \<Rightarrow> deploy_locked env (projectName req) branch' st1)"

section \<open>The body as the framework hands it over\<close>

text \<open>
  The handler never sees the bytes of the request: \<^verbatim>\<open>app.use(express.json(...))\<close>
  parses them first and leaves the parsed value in \<^verbatim>\<open>req.body\<close>. The middleware
  (for a request of content type JSON) leaves \<^verbatim>\<open>{}\<close> for an empty body, accepts only
  an object or an array, and answers 400 itself when the body does not parse.
\<close>

record wire_request =
  url_name :: string
  signature_header :: jsval
  raw_body :: string

definition express_json :: "'w env \<Rightarrow> string \<Rightarrow> jsval option" where
  "express_json env raw =
     (if raw = [] then Some (JObj [])
      else
        (case JSON_parse env raw of
           Inl e \<Rightarrow> None
         | Inr v \<Rightarrow> (case v of JObj kvs \<Rightarrow> Some v | JArr xs \<Rightarrow> Some v | _ \<Rightarrow> None)))"

definition deploy_endpoint :: "'w env \<Rightarrow> wire_request \<Rightarrow> 'w state \<Rightarrow> outcome \<times> 'w state" where
  "deploy_endpoint env wreq st =
     (case express_json env (raw_body wreq) of
        None \<Rightarrow> (Responded 400 JUndefined, st)
      | Some parsed \<Rightarrow>
          deploy_handler env
            \<lparr>projectName = url_name wreq, signature = signature_header wreq, body = parsed\<rparr> st)"

text \<open>The payloads that the verifier was called with.\<close>

fun verified_payloads :: "event list \<Rightarrow> jsval list" where
  "verified_payloads [] = []"
| "verified_payloads (Verify payload sig key # evs) = payload # verified_payloads evs"
| "verified_payloads (Exec c d r # evs) = verified_payloads evs"

section \<open>Requests in flight together\<close>

text \<open>
  The handler is an \<^verbatim>\<open>async\<close> function: it runs until an \<^verbatim>\<open>await\<close>, and other
  requests are handled before it goes on. A request is at one of these places:
  not yet received; at \<^verbatim>\<open>await acquireLock()\<close> with the promise settled; at the
  handler's \<^verbatim>\<open>await deployProject(...)\<close> after \<^verbatim>\<open>deployProject\<close> threw before its
  \<^verbatim>\<open>try\<close>; inside the \<^verbatim>\<open>try\<close> block of \<^verbatim>\<open>deployProject\<close>, waiting for a step; in its
  \<^verbatim>\<open>catch\<close>, waiting for the recovery restart; answered.
\<close>

datatype pstep = Fetch | Reset | Install | ReadManifest | Build | Restart

datatype phase =
    NotStarted
  | AtAcquire "js_error + unit" string "string option"
  | AtThrow js_error
  | InTry pstep string project string
  | InRecovery js_error project
  | Finished outcome

text \<open>
  What happens next: a request arrives, a continuation whose promise is already settled
  runs, or the child process (or file read) that a request waits for completes with a
  result, leaving the world as given.
\<close>

datatype 'w occurrence =
    Arrive nat request
  | Resume nat
  | Settled nat "js_error + string" 'w

record 'w server =
  shared :: "'w state"
  phases :: "nat \<Rightarrow> phase"

fun step_cmd :: "pstep \<Rightarrow> project \<Rightarrow> string \<Rightarrow> string" where
  "step_cmd Fetch p branch' = fetch_cmd"
| "step_cmd Reset p branch' = reset_cmd branch'"
| "step_cmd Install p branch' = install_cmd"
| "step_cmd ReadManifest p branch' = []"
| "step_cmd Build p branch' = build_cmd"
| "step_cmd Restart p branch' = restart_cmd p"

text \<open>\<^verbatim>\<open>deployProject\<close> from its call to its first \<^verbatim>\<open>await\<close>.\<close>

definition start_deploy :: "'w env \<Rightarrow> string \<Rightarrow> string \<Rightarrow> 'w state \<Rightarrow> phase" where
  "start_deploy env name branch' st =
     (case PROJECTS_get (PROJECTS env) name of
        Absent \<Rightarrow> AtThrow (Error (''Project '' @ name @ '' not configured''))
      | Inherited \<Rightarrow> AtThrow (Error ''Project directory undefined does not exist'')
      | Own p \<Rightarrow>
          if \<not> existsSync env (world st) (dir p)
          then AtThrow (Error (''Project directory '' @ dir p @ '' does not exist''))
          else InTry Fetch name p branch')"

text \<open>
  The \<^verbatim>\<open>try\<close> block from the completion of step \<open>k\<close> to the next \<^verbatim>\<open>await\<close>; after the
  restart, the handler's \<^verbatim>\<open>releaseLock()\<close> and its response.
\<close>

definition after_step ::
  "'w env \<Rightarrow> pstep \<Rightarrow> string \<Rightarrow> project \<Rightarrow> string \<Rightarrow> js_error + string \<Rightarrow> 'w state
     \<Rightarrow> phase \<times> 'w state" where
  "after_step env k name p branch' res st =
     (let st' = (if k = ReadManifest then st
                 else st\<lparr>trace := trace st @ [Exec (step_cmd k p branch') (dir p) res]\<rparr>)
      in case res of
           Inl e \<Rightarrow> (InRecovery e p, st')
         | Inr out \<Rightarrow>
             (case k of
                Fetch \<Rightarrow> (InTry Reset name p branch', st')
              | Reset \<Rightarrow> (InTry Install name p branch', st')
              | Install \<Rightarrow>
                  if existsSync env (world st') (path_join env (dir p) ''package.json'')
                  then (InTry ReadManifest name p branch', st')
                  else (InTry Restart name p branch', st')
              | ReadManifest \<Rightarrow>
                  (case JSON_parse env out of
                     Inl e \<Rightarrow> (InRecovery e p, st')
                   | Inr packageJson \<Rightarrow>
                       (case declares_build packageJson of
                          Inl e \<Rightarrow> (InRecovery e p, st')
                        | Inr True \<Rightarrow> (InTry Build name p branch', st')
                        | Inr False \<Rightarrow> (InTry Restart name p branch', st')))
              | Build \<Rightarrow> (InTry Restart name p branch', st')
              | Restart \<Rightarrow>
                  (Finished (Responded 200
                     (JObj [(''success'', JBool True),
                            (''message'', JStr (''Successfully deployed '' @ name))])),
                   releaseLock st')))"

definition step :: "'w env \<Rightarrow> 'w server \<Rightarrow> 'w occurrence \<Rightarrow> 'w server" where
  "step env g oc =
     (case oc of
        Arrive i req \<Rightarrow>
          (case phases g i of
             NotStarted \<Rightarrow>
               (case before_try env req (shared g) of
                  (Inl out, s) \<Rightarrow> g\<lparr>shared := s, phases := (phases g)(i := Finished out)\<rparr>
                | (Inr branch', s) \<Rightarrow>
                    (case acquireLock s of
                       (r, s') \<Rightarrow>
                         g\<lparr>shared := s',
                           phases := (phases g)(i := AtAcquire r (projectName req) branch')\<rparr>))
           | _ \<Rightarrow> g)
      | Resume i \<Rightarrow>
          (case phases g i of
             AtAcquire r name branch' \<Rightarrow>
               (case r of
                  Inl error \<Rightarrow>
                    g\<lparr>shared := releaseLock (shared g),
                      phases := (phases g)(i := Finished (Responded 500 (failure error)))\<rparr>
                | Inr u \<Rightarrow>
                    g\<lparr>phases := (phases g)
                        (i := start_deploy env name
                                (case branch' of None \<Rightarrow> ''main'' | Some b \<Rightarrow> b) (shared g))\<rparr>)
           | AtThrow error \<Rightarrow>
               g\<lparr>shared := releaseLock (shared g),
                 phases := (phases g)(i := Finished (Responded 500 (failure error)))\<rparr>
           | _ \<Rightarrow> g)
      | Settled i res w \<Rightarrow>
          (case phases g i of
             InTry k name p branch' \<Rightarrow>
               (case after_step env k name p branch' res ((shared g)\<lparr>world := w\<rparr>) of
                  (ph, s) \<Rightarrow> g\<lparr>shared := s, phases := (phases g)(i := ph)\<rparr>)
           | InRecovery error p \<Rightarrow>
               g\<lparr>shared :=
                   releaseLock ((shared g)\<lparr>world := w,
                     trace := trace (shared g) @ [Exec (restart_cmd p) (dir p) res]\<rparr>),
                 phases := (phases g)(i := Finished (Responded 500 (failure error)))\<rparr>
           | _ \<Rightarrow> g))"

definition run :: "'w env \<Rightarrow> 'w server \<Rightarrow> 'w occurrence list \<Rightarrow> 'w server" where
  "run env g ocs = foldl (step env) g ocs"

text \<open>A request whose pipeline is executing: inside \<^verbatim>\<open>deployProject\<close>'s \<^verbatim>\<open>try\<close> or \<^verbatim>\<open>catch\<close>.\<close>

fun in_pipeline :: "phase \<Rightarrow> bool" where
  "in_pipeline (InTry k name p b) = True"
| "in_pipeline (InRecovery e p) = True"
| "in_pipeline ph = False"

definition active :: "'w server \<Rightarrow> nat list \<Rightarrow> nat list" where
  "active g ids = filter (\<lambda>i. in_pipeline (phases g i)) ids"

definition idle :: "'w \<Rightarrow> 'w server" where
  "idle w = \<lparr>shared = \<lparr>isDeploying = False, world = w, trace = []\<rparr>, phases = (\<lambda>i. NotStarted)\<rparr>"

section \<open>A concrete environment\<close>

text \<open>
  The runtime's \<^verbatim>\<open>JSON.stringify\<close> on the values above: strings in double quotes with
  the quote, the backslash and the control characters escaped, no white space,
  \<^verbatim>\<open>undefined\<close> dropped from an object and \<^verbatim>\<open>null\<close> in an array. Numbers are
  integers printed in decimal, as JavaScript prints the integers it holds exactly.
\<close>

definition hex_digit :: "nat \<Rightarrow> char" where
  "hex_digit d = ''0123456789abcdef'' ! d"

definition json_escape :: "char \<Rightarrow> string" where
  "json_escape c =
     (if c = CHR 0x22 then [CHR 0x5C, CHR 0x22]
      else if c = CHR 0x5C then [CHR 0x5C, CHR 0x5C]
      else if c = CHR 0x08 then [CHR 0x5C, CHR ''b'']
      else if c = CHR 0x09 then [CHR 0x5C, CHR ''t'']
      else if c = CHR 0x0A then [CHR 0x5C, CHR ''n'']
      else if c = CHR 0x0C then [CHR 0x5C, CHR ''f'']
      else if c = CHR 0x0D then [CHR 0x5C, CHR ''r'']
      else if (of_char c :: nat) < 32
        then [CHR 0x5C, CHR ''u'', CHR ''0'', CHR ''0'',
              hex_digit ((of_char c :: nat) div 16), hex_digit ((of_char c :: nat) mod 16)]
      else [c])"

definition json_quote :: "string \<Rightarrow> string" where
  "json_quote s = [CHR 0x22] @ concat (map json_escape s) @ [CHR 0x22]"

fun join :: "string list \<Rightarrow> string" where
  "join [] = []"
| "join [x] = x"
| "join (x # y # ys) = x @ '','' @ join (y # ys)"

fun stringify :: "jsval \<Rightarrow> string option"
  and stringify_elements :: "jsval list \<Rightarrow> string list"
  and stringify_members :: "(string \<times> jsval) list \<Rightarrow> string list" where
  "stringify JUndefined = None"
| "stringify JNull = Some ''null''"
| "stringify (JBool b) = Some (if b then ''true'' else ''false'')"
| "stringify (JNum n) = Some (show_code (Some n))"
| "stringify (JStr s) = Some (json_quote s)"
| "stringify (JArr xs) = Some (''['' @ join (stringify_elements xs) @ '']'')"
| "stringify (JObj kvs) = Some (''{'' @ join (stringify_members kvs) @ ''}'')"
| "stringify_elements [] = []"
| "stringify_elements (x # xs) =
     (case stringify x of None \<Rightarrow> ''null'' | Some t \<Rightarrow> t) # stringify_elements xs"
| "stringify_members [] = []"
| "stringify_members ((k, v) # kvs) =
     (case stringify v of None \<Rightarrow> [] | Some t \<Rightarrow> [json_quote k @ '':'' @ t])
     @ stringify_members kvs"

definition json_stringify :: "jsval \<Rightarrow> jsval" where
  "json_stringify v = (case stringify v of None \<Rightarrow> JUndefined | Some t \<Rightarrow> JStr t)"

text \<open>
  \<^verbatim>\<open>JSON.parse\<close> on the texts made of objects, arrays, strings without escapes,
  \<^verbatim>\<open>true\<close>, \<^verbatim>\<open>false\<close> and \<^verbatim>\<open>null\<close>, with white space between the tokens, and with
  object keys that are distinct and not numerals (JavaScript keeps the last of a repeated
  key and moves numeral keys to the front); any other text is refused. The fuel bounds
  the depth of the descent by the length of the text.
\<close>

definition is_space :: "char \<Rightarrow> bool" where
  "is_space c = (c = CHR 0x20 \<or> c = CHR 0x09 \<or> c = CHR 0x0A \<or> c = CHR 0x0D)"

definition skip_space :: "string \<Rightarrow> string" where
  "skip_space cs = dropWhile is_space cs"

definition numeric_key :: "string \<Rightarrow> bool" where
  "numeric_key k = (k \<noteq> [] \<and> list_all (\<lambda>c. c \<in> set ''0123456789'') k)"

fun parse_chars :: "string \<Rightarrow> string \<Rightarrow> (string \<times> string) option" where
  "parse_chars acc [] = None"
| "parse_chars acc (c # cs) =
     (if c = CHR 0x22 then Some (rev acc, cs)
      else if c = CHR 0x5C \<or> (of_char c :: nat) < 32 then None
      else parse_chars (c # acc) cs)"

fun parse_value :: "nat \<Rightarrow> string \<Rightarrow> (jsval \<times> string) option"
  and parse_elements :: "nat \<Rightarrow> jsval list \<Rightarrow> string \<Rightarrow> (jsval list \<times> string) option"
  and parse_members ::
    "nat \<Rightarrow> (string \<times> jsval) list \<Rightarrow> string \<Rightarrow> ((string \<times> jsval) list \<times> string) option" where
  "parse_value 0 cs = None"
| "parse_value (Suc n) cs =
     (case skip_space cs of
        [] \<Rightarrow> None
      | c # r \<Rightarrow>
          if c = CHR ''{'' then
            (case skip_space r of
               [] \<Rightarrow> None
             | d # r' \<Rightarrow>
                 if d = CHR ''}'' then Some (JObj [], r')
                 else (case parse_members n [] (d # r') of
                         None \<Rightarrow> None
                       | Some (kvs, rest) \<Rightarrow> Some (JObj kvs, rest)))
          else if c = CHR ''['' then
            (case skip_space r of
               [] \<Rightarrow> None
             | d # r' \<Rightarrow>
                 if d = CHR '']'' then Some (JArr [], r')
                 else (case parse_elements n [] (d # r') of
                         None \<Rightarrow> None
                       | Some (xs, rest) \<Rightarrow> Some (JArr xs, rest)))
          else if c = CHR 0x22 then
            (case parse_chars [] r of None \<Rightarrow> None | Some (s, rest) \<Rightarrow> Some (JStr s, rest))
          else if prefix ''true'' (c # r) then Some (JBool True, drop 4 (c # r))
          else if prefix ''false'' (c # r) then Some (JBool False, drop 5 (c # r))
          else if prefix ''null'' (c # r) then Some (JNull, drop 4 (c # r))
          else None)"
| "parse_elements 0 acc cs = None"
| "parse_elements (Suc n) acc cs =
     (case parse_value n cs of
        None \<Rightarrow> None
      | Some (v, rest) \<Rightarrow>
          (case skip_space rest of
             [] \<Rightarrow> None
           | c # r \<Rightarrow>
               if c = CHR '','' then parse_elements n (acc @ [v]) r
               else if c = CHR '']'' then Some (acc @ [v], r)
               else None))"
| "parse_members 0 acc cs = None"
| "parse_members (Suc n) acc cs =
     (case skip_space cs of
        [] \<Rightarrow> None
      | q # r \<Rightarrow>
          if q \<noteq> CHR 0x22 then None
          else
            (case parse_chars [] r of
               None \<Rightarrow> None
             | Some (k, r1) \<Rightarrow>
                 (case skip_space r1 of
                    [] \<Rightarrow> None
                  | c # r2 \<Rightarrow>
                      if c \<noteq> CHR '':'' then None
                      else
                        (case parse_value n r2 of
                           None \<Rightarrow> None
                         | Some (v, r3) \<Rightarrow>
                             (case skip_space r3 of
                                [] \<Rightarrow> None
                              | e # r4 \<Rightarrow>
                                  if k \<in> set (map fst acc) \<or> numeric_key k then None
                                  else if e = CHR '','' then parse_members n (acc @ [(k, v)]) r4
                                  else if e = CHR ''}'' then Some (acc @ [(k, v)], r4)
                                  else None)))))"

definition json_parse :: "string \<Rightarrow> js_error + jsval" where
  "json_parse text =
     (case parse_value (Suc (length text)) text of
        None \<Rightarrow> Inl (SyntaxError ''Unexpected token in JSON'')
      | Some (v, rest) \<Rightarrow>
          if skip_space rest = [] then Inr v
          else Inl (SyntaxError ''Unexpected non-whitespace character after JSON''))"

text \<open>
  A world for running the model: the files that exist with their contents, and the
  commands that exit with code 1. The digest is a stand-in for HMAC-SHA256, which the
  theorems below do not depend on.
\<close>

record disk =
  files :: "(string \<times> string) list"
  failing :: "string list"

definition demo_exec :: "disk \<Rightarrow> string \<Rightarrow> string \<Rightarrow> exec_outcome \<times> disk" where
  "demo_exec w cmd cwd =
     (if cmd \<in> set (failing w) then (Close (Some 1) [] (''cannot '' @ cmd), w)
      else (Close (Some 0) ''done'' [], w))"

definition demo_hmac :: "string \<Rightarrow> string \<Rightarrow> string" where
  "demo_hmac key msg = rev msg @ key"

definition demo_project :: project where
  "demo_project = \<lparr>dir = ''/var/www/demo'', pm2Name = ''demo'', secret = ''s3cr3t'', branch = ''main''\<rparr>"

definition demo_env :: "disk env" where
  "demo_env =
     \<lparr>PROJECTS = [''demo'' \<mapsto> demo_project],
      hmac = demo_hmac,
      JSON_stringify = json_stringify,
      JSON_parse = json_parse,
      path_join = (\<lambda>a b. a @ ''/'' @ b),
      existsSync = (\<lambda>w f. map_of (files w) f \<noteq> None),
      readFile = (\<lambda>w f. case map_of (files w) f of
                            None \<Rightarrow> Inl (Error ''ENOENT: no such file or directory'')
                          | Some t \<Rightarrow> Inr t),
      exec = demo_exec\<rparr>"

definition demo_disk :: disk where
  "demo_disk = \<lparr>files = [(''/var/www/demo'', [])], failing = []\<rparr>"

definition demo_state :: "disk state" where
  "demo_state = \<lparr>isDeploying = False, world = demo_disk, trace = []\<rparr>"

text \<open>The same, with a manifest that declares a build step.\<close>

definition demo_manifest :: string where
  \<open>demo_manifest = ''{"name": "demo", "scripts": {"build": "tsc"}}''\<close>

definition build_disk :: disk where
  "build_disk =
     \<lparr>files = [(''/var/www/demo'', []), (''/var/www/demo/package.json'', demo_manifest)],
      failing = []\<rparr>"

definition build_state :: "disk state" where
  "build_state = \<lparr>isDeploying = False, world = build_disk, trace = []\<rparr>"



text \<open>The first world again, with the install and the restart commands failing.\<close>

definition failing_state :: "disk state" where
  "failing_state =
     \<lparr>isDeploying = False,
      world = \<lparr>files = [(''/var/www/demo'', [])], failing = [''npm i'', ''pm2 restart demo'']\<rparr>,
      trace = []\<rparr>"

text \<open>
  A push notification for a ref, and a request that carries a body with the token
  computed for the payload that the handler verifies.
\<close>

definition push :: "string \<Rightarrow> jsval" where
  "push r = JObj [(''ref'', JStr r)]"

definition signed_request :: "string \<Rightarrow> jsval \<Rightarrow> request" where
  "signed_request name b =
     \<lparr>projectName = name,
      signature =
        (case json_stringify b of
           JStr payload \<Rightarrow> JStr (expectedSignature demo_hmac ''s3cr3t'' payload)
         | _ \<Rightarrow> JUndefined),
      body = b\<rparr>"

text \<open>
  The same push notification as two different byte sequences on the wire, and a request
  whose token is computed over the bytes sent.
\<close>

definition compact_body :: string where
  \<open>compact_body = ''{"ref":"refs/heads/main"}''\<close>

definition spaced_body :: string where
  \<open>spaced_body = ''{"ref": "refs/heads/main"}''\<close>

definition signed_wire_request :: "string \<Rightarrow> string \<Rightarrow> wire_request" where
  "signed_wire_request name raw =
     \<lparr>url_name = name,
      signature_header = JStr (expectedSignature demo_hmac ''s3cr3t'' raw),
      raw_body = raw\<rparr>"

section \<open>Notions for stating the properties\<close>

text \<open>Commands run one after the other in one directory, up to the first that fails.\<close>

fun run_all :: "'w env \<Rightarrow> string \<Rightarrow> string list \<Rightarrow> 'w state \<Rightarrow> (js_error + unit) \<times> 'w state" where
  "run_all env cwd [] st = (Inr (), st)"
| "run_all env cwd (c # cs) st =
     (case execPromise env c cwd st of
        (Inl e, s) \<Rightarrow> (Inl e, s)
      | (Inr out, s) \<Rightarrow> run_all env cwd cs s)"

text \<open>The events that a run from \<open>st\<close> to \<open>st'\<close> added.\<close>

definition new_events :: "'w state \<Rightarrow> 'w state \<Rightarrow> event list" where
  "new_events st st' = drop (length (trace st)) (trace st')"

text \<open>The subprocesses among some events, and their commands.\<close>

definition subprocesses :: "event list \<Rightarrow> event list" where
  "subprocesses evs = filter is_Exec evs"

definition commands :: "event list \<Rightarrow> string list" where
  "commands evs = map command (subprocesses evs)"






text \<open>
  Removing a leading \<^verbatim>\<open>refs/heads/\<close>, as the description of the branch filter words
  it: the rest of a ref that starts with it, any other ref unchanged.
\<close>

definition strip_refs_heads :: "string \<Rightarrow> string" where
  "strip_refs_heads r = (if prefix ''refs/heads/'' r then drop (length ''refs/heads/'') r else r)"

text \<open>The number of places at which a pattern occurs in a string.\<close>

fun occurrences :: "string \<Rightarrow> string \<Rightarrow> nat" where
  "occurrences pat [] = (if pat = [] then 1 else 0)"
| "occurrences pat (c # cs) = (if prefix pat (c # cs) then 1 else 0) + occurrences pat cs"

section \<open>The signature verifier: properties\<close>

text \<open>The UTF-8 encoding loses nothing: two strings with the same bytes are the same.\<close>

lemma hi_byte: "(n::nat) < 256 \<Longrightarrow> (192 + n div 64) mod 256 = 192 + n div 64"
proof -
  assume "n < 256"
  then have "n < 4 * 64" by simp
  then have "n div 64 < 4" by (rule less_mult_imp_div_less)
  then show ?thesis by simp
qed

lemma lo_byte: "(128 + (n::nat) mod 64) mod 256 = 128 + n mod 64"
proof -
  have "n mod 64 < 64" by simp
  then have "128 + n mod 64 < 256" by linarith
  then show ?thesis by simp
qed

lemma utf8_unit_inj: "utf8_unit c @ xs = utf8_unit d @ ys \<Longrightarrow> c = d \<and> xs = ys"
proof -
  assume h: "utf8_unit c @ xs = utf8_unit d @ ys"
  let ?c = "of_char c :: nat" and ?d = "of_char d :: nat"
  have cb: "?c < 256" and db: "?d < 256" by simp_all
  show ?thesis
  proof (cases "?c < 128")
    case c: True
    show ?thesis
    proof (cases "?d < 128")
      case True
      with c h show ?thesis by (simp add: utf8_unit_def)
    next
      case False
      with c h have "c = char_of (192 + ?d div 64)" by (simp add: utf8_unit_def)
      then have "?c = (192 + ?d div 64) mod 256" by (metis of_char_of)
      moreover from db have "(192 + ?d div 64) mod 256 = 192 + ?d div 64" by (rule hi_byte)
      ultimately have "?c \<ge> 192" by linarith
      with c show ?thesis by simp
    qed
  next
    case c: False
    show ?thesis
    proof (cases "?d < 128")
      case True
      with c h have "d = char_of (192 + ?c div 64)" by (simp add: utf8_unit_def)
      then have "?d = (192 + ?c div 64) mod 256" by (metis of_char_of)
      moreover from cb have "(192 + ?c div 64) mod 256 = 192 + ?c div 64" by (rule hi_byte)
      ultimately have "?d \<ge> 192" by linarith
      with True show ?thesis by simp
    next
      case False
      with c h have e1: "char_of (192 + ?c div 64) = (char_of (192 + ?d div 64) :: char)"
        and e2: "char_of (128 + ?c mod 64) = (char_of (128 + ?d mod 64) :: char)" and r: "xs = ys"
        by (simp_all add: utf8_unit_def)
      from e1 have "(192 + ?c div 64) mod 256 = (192 + ?d div 64) mod 256"
        by (metis of_char_of)
      moreover from cb have "(192 + ?c div 64) mod 256 = 192 + ?c div 64" by (rule hi_byte)
      moreover from db have "(192 + ?d div 64) mod 256 = 192 + ?d div 64" by (rule hi_byte)
      ultimately have d1: "?c div 64 = ?d div 64" by linarith
      from e2 have "(128 + ?c mod 64) mod 256 = (128 + ?d mod 64) mod 256"
        by (metis of_char_of)
      moreover have "(128 + ?c mod 64) mod 256 = 128 + ?c mod 64" by (rule lo_byte)
      moreover have "(128 + ?d mod 64) mod 256 = 128 + ?d mod 64" by (rule lo_byte)
      ultimately have d2: "?c mod 64 = ?d mod 64" by linarith
      from d1 d2 have "?c = ?d" by (metis div_mult_mod_eq)
      then have "c = d" by (rule of_char_eqI)
      with r show ?thesis by simp
    qed
  qed
qed

lemma Buffer_from_inj: "Buffer_from s = Buffer_from t \<Longrightarrow> s = t"
proof (induction s arbitrary: t)
  case Nil
  show ?case
  proof (cases t)
    case Nil then show ?thesis by simp
  next
    case (Cons d t')
    with Nil.prems show ?thesis by (auto simp: Buffer_from_def utf8_unit_def split: if_splits)
  qed
next
  case (Cons c s)
  show ?case
  proof (cases t)
    case Nil
    with Cons.prems show ?thesis by (auto simp: Buffer_from_def utf8_unit_def split: if_splits)
  next
    case (Cons d t')
    with Cons.prems have "utf8_unit c @ Buffer_from s = utf8_unit d @ Buffer_from t'"
      by (simp add: Buffer_from_def)
    then have "c = d" "Buffer_from s = Buffer_from t'" using utf8_unit_inj by blast+
    with Cons.IH Cons show ?thesis by simp
  qed
qed

lemma Buffer_from_eq_iff: "(Buffer_from s = Buffer_from t) = (s = t)"
  using Buffer_from_inj by auto

lemma verify_strings:
  "verifySignature h (JStr payload) sg (JStr key) = Inr (sg = JStr (expectedSignature h key payload))"
proof (cases sg)
  case (JStr s)
  show ?thesis
  proof (cases "s = []")
    case True
    with JStr show ?thesis
      by (simp add: verifySignature_def verifySignature_try_def hmac_sha256_hex_def expectedSignature_def)
  next
    case False
    with JStr show ?thesis
      by (auto simp: verifySignature_def verifySignature_try_def hmac_sha256_hex_def
          expectedSignature_def timingSafeEqual_def Let_def Buffer_from_eq_iff)
  qed
qed (simp_all add: verifySignature_def verifySignature_try_def hmac_sha256_hex_def)

text \<open>
  Claim C4. The verifier never signals an exception to its caller: whatever the payload,
  the presented token and the secret are, it returns a boolean; and it returns
  \<^verbatim>\<open>false\<close> when the token is absent (or otherwise falsy), when it is not a string, and
  when its length (in code units or in bytes) differs from the expected token's.
\<close>

theorem verifySignature_never_throws:
  "(\<forall>e. verifySignature h payload sg key \<noteq> Inl e)
   \<and> (\<not> truthy sg \<or> typeof sg \<noteq> ''string'' \<longrightarrow> verifySignature h payload sg key = Inr False)
   \<and> (\<forall>s k m. sg = JStr s \<and> key = JStr k \<and> payload = JStr m
         \<and> (length s \<noteq> length (expectedSignature h k m)
            \<or> length (Buffer_from s) \<noteq> length (Buffer_from (expectedSignature h k m)))
        \<longrightarrow> verifySignature h payload sg key = Inr False)"
proof (intro conjI allI impI)
  fix e show "verifySignature h payload sg key \<noteq> Inl e"
    by (simp add: verifySignature_def split: sum.splits)
next
  assume "\<not> truthy sg \<or> typeof sg \<noteq> ''string''"
  then show "verifySignature h payload sg key = Inr False"
    by (auto simp: verifySignature_def verifySignature_try_def split: sum.splits)
next
  fix s k m
  assume a: "sg = JStr s \<and> key = JStr k \<and> payload = JStr m
         \<and> (length s \<noteq> length (expectedSignature h k m)
            \<or> length (Buffer_from s) \<noteq> length (Buffer_from (expectedSignature h k m)))"
  then have "s \<noteq> expectedSignature h k m" by auto
  with a show "verifySignature h payload sg key = Inr False"
    by (simp add: verify_strings)
qed

text \<open>The three rejections, run: no header, a number, a token that is too short.\<close>

theorem verifySignature_never_throws_witness:
  "verifySignature demo_hmac (JStr ''{}'') JUndefined (JStr ''s3cr3t'') = Inr False
   \<and> verifySignature demo_hmac (JStr ''{}'') (JNum 7) (JStr ''s3cr3t'') = Inr False
   \<and> verifySignature demo_hmac (JStr ''{}'') (JStr ''sha256=abc'') (JStr ''s3cr3t'') = Inr False"
  using verifySignature_never_throws [of demo_hmac "JStr ''{}''" JUndefined "JStr ''s3cr3t''"]
    verifySignature_never_throws [of demo_hmac "JStr ''{}''" "JNum 7" "JStr ''s3cr3t''"]
    verifySignature_never_throws [of demo_hmac "JStr ''{}''" "JStr ''sha256=abc''" "JStr ''s3cr3t''"]
  by (simp add: expectedSignature_def demo_hmac_def)



text \<open>
  The length check is what keeps \<^verbatim>\<open>timingSafeEqual\<close> from throwing: the earlier
  revision, without it, raises on the same short token.
\<close>

lemma verifySignature_v0_raises:
  "verifySignature_v0 demo_hmac (JStr ''{}'') (JStr ''sha256=abc'') (JStr ''s3cr3t'')
     = Inl (RangeError ''Input buffers must have the same byte length'')"
  by (simp add: verifySignature_v0_def hmac_sha256_hex_def timingSafeEqual_def Buffer_from_def
      utf8_unit_def demo_hmac_def)

text \<open>
  Claim C5. For every secret and body, the verifier returns \<^verbatim>\<open>true\<close> exactly when the
  presented token is \<^verbatim>\<open>"sha256="\<close> followed by the hexadecimal HMAC-SHA256 of the body
  under the secret: it accepts that token, and rejects the token with any one position
  changed.
\<close>

theorem verifySignature_accepts_exactly:
  "verifySignature h (JStr payload) sg (JStr key) = Inr (sg = JStr (expectedSignature h key payload))
   \<and> verifySignature h (JStr payload) (JStr (expectedSignature h key payload)) (JStr key) = Inr True
   \<and> (\<forall>i c. i < length (expectedSignature h key payload) \<and> c \<noteq> expectedSignature h key payload ! i \<longrightarrow>
        verifySignature h (JStr payload) (JStr ((expectedSignature h key payload)[i := c])) (JStr key) = Inr False)"
proof -
  have a: "\<And>sg. verifySignature h (JStr payload) sg (JStr key) = Inr (sg = JStr (expectedSignature h key payload))"
    by (rule verify_strings)
  have "\<And>i c. i < length (expectedSignature h key payload) \<Longrightarrow> c \<noteq> expectedSignature h key payload ! i \<Longrightarrow>
      (expectedSignature h key payload)[i := c] \<noteq> expectedSignature h key payload"
    by (metis nth_list_update_eq)
  with a show ?thesis by simp
qed

text \<open>The expected token accepted, and the same token with its last character changed rejected.\<close>

theorem verifySignature_accepts_exactly_witness:
  "expectedSignature demo_hmac ''s3cr3t'' ''{}'' = ''sha256=}{s3cr3t''
   \<and> verifySignature demo_hmac (JStr ''{}'') (JStr ''sha256=}{s3cr3t'') (JStr ''s3cr3t'') = Inr True
   \<and> verifySignature demo_hmac (JStr ''{}'') (JStr (''sha256=}{s3cr3t''[14 := CHR ''T'']))
         (JStr ''s3cr3t'') = Inr False"
proof -
  have e: "expectedSignature demo_hmac ''s3cr3t'' ''{}'' = ''sha256=}{s3cr3t''"
    by (simp add: expectedSignature_def demo_hmac_def)
  note t = verifySignature_accepts_exactly [of demo_hmac "''{}''" JNull "''s3cr3t''"]
  from t have "verifySignature demo_hmac (JStr ''{}'')
      (JStr (expectedSignature demo_hmac ''s3cr3t'' ''{}'')) (JStr ''s3cr3t'') = Inr True"
    by (rule conjunct2 [THEN conjunct1])
  then have a: "verifySignature demo_hmac (JStr ''{}'') (JStr ''sha256=}{s3cr3t'') (JStr ''s3cr3t'')
      = Inr True" by (simp only: e)
  have h: "14 < length (expectedSignature demo_hmac ''s3cr3t'' ''{}'')
      \<and> CHR ''T'' \<noteq> expectedSignature demo_hmac ''s3cr3t'' ''{}'' ! 14"
    by (simp add: e)
  from t have "\<forall>i c. i < length (expectedSignature demo_hmac ''s3cr3t'' ''{}'')
        \<and> c \<noteq> expectedSignature demo_hmac ''s3cr3t'' ''{}'' ! i \<longrightarrow>
        verifySignature demo_hmac (JStr ''{}'')
          (JStr ((expectedSignature demo_hmac ''s3cr3t'' ''{}'')[i := c])) (JStr ''s3cr3t'') = Inr False"
    by (rule conjunct2 [THEN conjunct2])
  with h have "verifySignature demo_hmac (JStr ''{}'')
          (JStr ((expectedSignature demo_hmac ''s3cr3t'' ''{}'')[14 := CHR ''T''])) (JStr ''s3cr3t'') = Inr False"
    by blast
  then have b: "verifySignature demo_hmac (JStr ''{}'') (JStr (''sha256=}{s3cr3t''[14 := CHR ''T'']))
         (JStr ''s3cr3t'') = Inr False" by (simp only: e)
  from e a b show ?thesis by (intro conjI)
qed

section \<open>The pipeline: properties\<close>


lemma deploy_try_run_all:
  "deploy_try env name p br st =
     (case run_all env (dir p) [fetch_cmd, reset_cmd br, install_cmd] st of
        (Inl e, s) \<Rightarrow> (Inl e, s)
      | (Inr u, s3) \<Rightarrow>
          (case build_wanted env p (world s3) of
             Inl e \<Rightarrow> (Inl e, s3)
           | Inr b \<Rightarrow>
               (case run_all env (dir p) ((if b then [build_cmd] else []) @ [restart_cmd p]) s3 of
                  (Inl e, s) \<Rightarrow> (Inl e, s)
                | (Inr u, s5) \<Rightarrow> (Inr (''Successfully deployed '' @ name), s5))))"
  by (simp add: deploy_try_def build_step_def split: prod.splits sum.splits bool.splits)






lemma PROJECTS_get_own: "projects name = Some p \<Longrightarrow> PROJECTS_get projects name = Own p"
  by (simp add: PROJECTS_get_def)

lemma deployProject_own:
  assumes "PROJECTS env name = Some p" and "existsSync env (world st) (dir p)"
  shows "deployProject env name br st =
     (case deploy_try env name p br st of
        (Inr result, s) \<Rightarrow> (Inr result, s)
      | (Inl error, s) \<Rightarrow> (Inl error, snd (execPromise env (restart_cmd p) (dir p) s)))"
  using assms by (simp add: deployProject_def PROJECTS_get_own)

















text \<open>
  Step 5 can also fail without a command failing, when the manifest cannot be read or
  parsed: the build and the primary restart are skipped, the recovery restart runs, and
  the error of the manifest is the one reported.
\<close>

lemma deployProject_manifest_failure:
  assumes own: "PROJECTS env name = Some p" and ex: "existsSync env (world st) (dir p)"
      and "run_all env (dir p) [fetch_cmd, reset_cmd br, install_cmd] st = (Inr u, s3)"
      and "build_wanted env p (world s3) = Inl e"
  shows "deployProject env name br st = (Inl e, snd (execPromise env (restart_cmd p) (dir p) s3))"
  using assms(3,4)
  by (simp add: deployProject_own [OF own ex] deploy_try_run_all del: run_all.simps)

text \<open>The pipeline run in the concrete environment.\<close>

lemmas demo_simps =
  demo_env_def demo_project_def demo_state_def demo_disk_def demo_exec_def build_state_def
  build_disk_def demo_manifest_def
  deployProject_def deploy_try_def build_step_def build_wanted_def declares_build_def
  execPromise_def settle_def PROJECTS_get_def
  fetch_cmd_def reset_cmd_def install_cmd_def build_cmd_def restart_cmd_def
  new_events_def commands_def subprocesses_def
  json_parse_def skip_space_def is_space_def numeric_key_def









section \<open>The request handler: properties\<close>

lemma before_try_effect:
  "before_try env req st = (r, st1) \<Longrightarrow>
     isDeploying st1 = isDeploying st \<and> world st1 = world st \<and>
     (trace st1 = trace st \<or>
      trace st1 = trace st @ [Verify (JSON_stringify env (body req)) (signature req)
                      (secret_of (PROJECTS_get (PROJECTS env) (projectName req)))])"
  by (auto simp: before_try_def Let_def split: if_splits sum.splits bool.splits)

lemma deploy_locked_releases: "\<not> isDeploying (snd (deploy_locked env name br s))"
  by (simp add: deploy_locked_def releaseLock_def split: prod.splits sum.splits)

text \<open>
  For the names that \<^verbatim>\<open>PROJECTS\<close> neither has nor inherits, the handler answers 404
  and leaves the state as it was: no call of the verifier, no subprocess.
\<close>

lemma absent_not_found:
  "PROJECTS_get (PROJECTS env) (projectName req) = Absent \<Longrightarrow>
     deploy_handler env req st = (not_found, st)"
  by (simp add: deploy_handler_def before_try_def)


lemma replace_first_prefix:
  "prefix pat r \<Longrightarrow> replace_first pat [] r = drop (length pat) r"
  by (cases r) simp_all





lemma after_step_finished:
  "after_step env k name p br res s = (Finished out, s') \<Longrightarrow> \<not> isDeploying s'"
proof (cases res)
  case (Inl e)
  assume "after_step env k name p br res s = (Finished out, s')"
  with Inl show ?thesis by (simp add: after_step_def Let_def)
next
  case (Inr v)
  assume "after_step env k name p br res s = (Finished out, s')"
  with Inr show ?thesis
    by (cases k)
      (auto simp add: after_step_def Let_def releaseLock_def
        split: if_splits sum.splits bool.splits)
qed

lemma start_deploy_not_finished: "start_deploy env name br s \<noteq> Finished out"
  by (simp add: start_deploy_def split: lookup.splits)

text \<open>
  In the interleaved handling too: the step with which a request that had passed the
  early checks is answered leaves the lock free.
\<close>

lemma step_finishes:
  assumes started: "phases g i \<noteq> NotStarted"
      and running: "\<forall>out'. phases g i \<noteq> Finished out'"
      and fin: "phases (step env g oc) i = Finished out"
  shows "\<not> isDeploying (shared (step env g oc))"
proof (cases oc)
  case (Arrive j req')
  show ?thesis
  proof (cases "phases g j = NotStarted")
    case True
    with started have "j \<noteq> i" by auto
    with True Arrive have "phases (step env g oc) i = phases g i"
      by (simp add: step_def split: prod.splits sum.splits)
    with running fin show ?thesis by simp
  next
    case False
    with Arrive have "step env g oc = g" by (cases "phases g j") (simp_all add: step_def)
    with running fin show ?thesis by simp
  qed
next
  case (Resume j)
  show ?thesis
  proof (cases "j = i")
    case False
    with Resume have "phases (step env g oc) i = phases g i"
      by (cases "phases g j") (simp_all add: step_def split: sum.splits)
    with running fin show ?thesis by simp
  next
    case True
    show ?thesis
    proof (cases "phases g i")
      case (AtAcquire r name br)
      with True Resume fin show ?thesis
        by (cases r) (auto simp: step_def releaseLock_def start_deploy_not_finished)
    next
      case (AtThrow e)
      with True Resume show ?thesis by (simp add: step_def releaseLock_def)
    qed (use True Resume running fin in \<open>simp_all add: step_def\<close>)
  qed
next
  case (Settled j res w)
  show ?thesis
  proof (cases "j = i")
    case False
    with Settled have "phases (step env g oc) i = phases g i"
      by (cases "phases g j") (simp_all add: step_def split: prod.splits)
    with running fin show ?thesis by simp
  next
    case True
    show ?thesis
    proof (cases "phases g i")
      case (InTry k name p br)
      obtain ph s' where as: "after_step env k name p br res ((shared g)\<lparr>world := w\<rparr>) = (ph, s')"
        by (cases "after_step env k name p br res ((shared g)\<lparr>world := w\<rparr>)")
      with InTry True Settled have st: "step env g oc = g\<lparr>shared := s', phases := (phases g)(i := ph)\<rparr>"
        by (simp add: step_def)
      with fin have "ph = Finished out" by simp
      with as after_step_finished have "\<not> isDeploying s'" by blast
      with st show ?thesis by simp
    next
      case (InRecovery e p)
      with True Settled show ?thesis by (simp add: step_def releaseLock_def)
    qed (use True Settled running fin in \<open>simp_all add: step_def\<close>)
  qed
qed

text \<open>
  Claim C8. After the handling of a deploy request completes, the lock is free whatever
  the outcome of the pipeline: the \<^verbatim>\<open>try\<close> statement of the handler releases it on
  success, on a pipeline failure and on a rejected acquisition; so it is free after
  every request that reaches the \<^verbatim>\<open>try\<close>, and after every request handled while it
  was free; and when requests are handled interleaved, the step that answers a request
  that had passed the early checks leaves it free.
\<close>

theorem lock_free_after_handling:
  "\<not> isDeploying (snd (deploy_locked env name br s))
   \<and> (before_try env req st = (Inr br, st1) \<longrightarrow> \<not> isDeploying (snd (deploy_handler env req st)))
   \<and> (\<not> isDeploying st \<longrightarrow> \<not> isDeploying (snd (deploy_handler env req st)))
   \<and> (phases g i \<noteq> NotStarted \<and> (\<forall>out'. phases g i \<noteq> Finished out')
        \<and> phases (step env g oc) i = Finished out
      \<longrightarrow> \<not> isDeploying (shared (step env g oc)))"
proof (intro conjI impI)
  show "\<not> isDeploying (snd (deploy_locked env name br s))" by (rule deploy_locked_releases)
next
  assume "before_try env req st = (Inr br, st1)"
  then show "\<not> isDeploying (snd (deploy_handler env req st))"
    by (simp add: deploy_handler_def deploy_locked_releases)
next
  assume free: "\<not> isDeploying st"
  obtain r st1 where b: "before_try env req st = (r, st1)" by (cases "before_try env req st")
  with before_try_effect [OF b] free show "\<not> isDeploying (snd (deploy_handler env req st))"
    by (cases r) (simp_all add: deploy_handler_def deploy_locked_releases)
next
  assume a: "phases g i \<noteq> NotStarted \<and> (\<forall>out'. phases g i \<noteq> Finished out')
        \<and> phases (step env g oc) i = Finished out"
  then show "\<not> isDeploying (shared (step env g oc))"
    using step_finishes by blast
qed


lemma expectedSignature_not_Nil: "expectedSignature h k m \<noteq> []"
  by (simp add: expectedSignature_def)

lemmas handler_simps = expectedSignature_not_Nil
  deploy_handler_def before_try_def deploy_locked_def acquireLock_def releaseLock_def
  effective_branch_def verify_strings signed_request_def push_def
  json_stringify_def json_quote_def json_escape_def
  ignoring_def failure_def invalid_signature_def not_found_def Let_def

text \<open>The handler run in the concrete environment.\<close>

lemma feature_push_ignored:
  "deploy_handler demo_env (signed_request ''demo'' (push ''refs/heads/feature-x'')) demo_state =
     (Responded 200
        (JObj [(''message'', JStr ''Ignoring deployment: branch feature-x != main'')]),
      demo_state\<lparr>trace :=
        [Verify (json_stringify (push ''refs/heads/feature-x''))
           (signature (signed_request ''demo'' (push ''refs/heads/feature-x'')))
           (JStr ''s3cr3t'')]\<rparr>)"
  by (simp add: handler_simps demo_simps)

lemma main_push_deployed:
  "deploy_handler demo_env (signed_request ''demo'' (push ''refs/heads/main'')) demo_state =
     (Responded 200 (JObj [(''success'', JBool True), (''message'', JStr ''Successfully deployed demo'')]),
      demo_state\<lparr>trace :=
        [Verify (json_stringify (push ''refs/heads/main''))
           (signature (signed_request ''demo'' (push ''refs/heads/main'')))
           (JStr ''s3cr3t''),
         Exec ''git fetch --all'' ''/var/www/demo'' (Inr ''done''),
         Exec ''git reset --hard origin/main'' ''/var/www/demo'' (Inr ''done''),
         Exec ''npm i'' ''/var/www/demo'' (Inr ''done''),
         Exec ''pm2 restart demo'' ''/var/www/demo'' (Inr ''done'')]\<rparr>)"
  by (simp add: handler_simps demo_simps)


lemma failing_push:
  "deploy_handler demo_env (signed_request ''demo'' (push ''refs/heads/main'')) failing_state =
     (Responded 500
        (JObj [(''success'', JBool False), (''error'', JStr ''Command failed with code 1: cannot npm i'')]),
      failing_state\<lparr>trace :=
        [Verify (json_stringify (push ''refs/heads/main''))
           (signature (signed_request ''demo'' (push ''refs/heads/main'')))
           (JStr ''s3cr3t''),
         Exec ''git fetch --all'' ''/var/www/demo'' (Inr ''done''),
         Exec ''git reset --hard origin/main'' ''/var/www/demo'' (Inr ''done''),
         Exec ''npm i'' ''/var/www/demo'' (Inl (Error ''Command failed with code 1: cannot npm i'')),
         Exec ''pm2 restart demo'' ''/var/www/demo''
           (Inl (Error ''Command failed with code 1: cannot pm2 restart demo''))]\<rparr>)"
  by (simp add: handler_simps demo_simps failing_state_def show_code_def)

text \<open>
  Claim C9 at a name that the configuration does not have and that every object
  inherits: \<^verbatim>\<open>PROJECTS['constructor']\<close> is a function, so the 404 check passes, the
  verifier is called with an \<^verbatim>\<open>undefined\<close> secret, and the response is 401.
\<close>

theorem inherited_name_answered_401:
  "PROJECTS demo_env ''constructor'' = None
   \<and> deploy_handler demo_env \<lparr>projectName = ''constructor'', signature = JStr ''sha256=0'', body = JObj []\<rparr>
       demo_state =
     (Responded 401 (JObj [(''error'', JStr ''Invalid signature'')]),
      demo_state\<lparr>trace := [Verify (JStr ''{}'') (JStr ''sha256=0'') JUndefined]\<rparr>)"
  by (simp add: handler_simps demo_simps Object_prototype_keys_def verifySignature_def
      verifySignature_try_def hmac_sha256_hex_def)




text \<open>The lock after a failed deployment, after a successful one, and after a rejection.\<close>

theorem lock_free_after_handling_witness:
  "\<not> isDeploying (snd (deploy_locked demo_env ''demo'' (Some ''main'') (demo_state\<lparr>isDeploying := True\<rparr>)))
   \<and> fst (deploy_handler demo_env (signed_request ''demo'' (push ''refs/heads/main'')) failing_state)
       = Responded 500
           (JObj [(''success'', JBool False), (''error'', JStr ''Command failed with code 1: cannot npm i'')])
   \<and> \<not> isDeploying (snd (deploy_handler demo_env (signed_request ''demo'' (push ''refs/heads/main'')) failing_state))
   \<and> fst (deploy_handler demo_env (signed_request ''demo'' (push ''refs/heads/main'')) demo_state)
       = Responded 200 (JObj [(''success'', JBool True), (''message'', JStr ''Successfully deployed demo'')])
   \<and> \<not> isDeploying (snd (deploy_handler demo_env (signed_request ''demo'' (push ''refs/heads/main'')) demo_state))
   \<and> fst (before_try demo_env (signed_request ''demo'' (push ''refs/heads/main''))
         (demo_state\<lparr>isDeploying := True\<rparr>)) = Inr (Some ''main'')
   \<and> \<not> isDeploying (snd (deploy_handler demo_env (signed_request ''demo'' (push ''refs/heads/main''))
         (demo_state\<lparr>isDeploying := True\<rparr>)))
   \<and> phases (run demo_env (idle demo_disk)
         [Arrive 1 (signed_request ''demo'' (push ''refs/heads/main'')), Resume 1,
          Settled 1 (Inl (Error ''no network'')) demo_disk]) 1
       = InRecovery (Error ''no network'') demo_project
   \<and> phases (step demo_env (run demo_env (idle demo_disk)
         [Arrive 1 (signed_request ''demo'' (push ''refs/heads/main'')), Resume 1,
          Settled 1 (Inl (Error ''no network'')) demo_disk])
         (Settled 1 (Inr ''done'') demo_disk)) 1
       = Finished (Responded 500 (JObj [(''success'', JBool False), (''error'', JStr ''no network'')]))
   \<and> \<not> isDeploying (shared (step demo_env (run demo_env (idle demo_disk)
         [Arrive 1 (signed_request ''demo'' (push ''refs/heads/main'')), Resume 1,
          Settled 1 (Inl (Error ''no network'')) demo_disk])
         (Settled 1 (Inr ''done'') demo_disk)))"
proof -
  let ?req = "signed_request ''demo'' (push ''refs/heads/main'')"
  let ?held = "demo_state\<lparr>isDeploying := True\<rparr>"
  let ?g = "run demo_env (idle demo_disk)
         [Arrive 1 ?req, Resume 1, Settled 1 (Inl (Error ''no network'')) demo_disk]"
  let ?oc = "Settled 1 (Inr ''done'') demo_disk"
  let ?out = "Responded 500 (JObj [(''success'', JBool False), (''error'', JStr ''no network'')])"
  have f1: "\<not> isDeploying failing_state" by (simp add: failing_state_def)
  have f2: "\<not> isDeploying demo_state" by (simp add: demo_state_def)
  have bt: "before_try demo_env ?req ?held
      = (Inr (Some ''main''), snd (before_try demo_env ?req ?held))"
    by (simp add: handler_simps demo_env_def demo_project_def PROJECTS_get_def demo_state_def)
  have g1: "phases ?g 1 = InRecovery (Error ''no network'') demo_project"
    by (simp add: run_def step_def idle_def start_deploy_def after_step_def handler_simps
        demo_env_def demo_project_def demo_disk_def PROJECTS_get_def)
  have g2: "phases (step demo_env ?g ?oc) 1 = Finished ?out"
    by (simp add: run_def step_def idle_def start_deploy_def after_step_def handler_simps
        demo_env_def demo_project_def demo_disk_def PROJECTS_get_def)
  have g3: "phases ?g 1 \<noteq> NotStarted \<and> (\<forall>out'. phases ?g 1 \<noteq> Finished out')
      \<and> phases (step demo_env ?g ?oc) 1 = Finished ?out"
    using g1 g2 by simp
  note t1 = lock_free_after_handling [of demo_env "''demo''" "Some ''main''" ?held
      ?req failing_state "snd (before_try demo_env ?req failing_state)" ?g 1 ?oc ?out]
  note t2 = lock_free_after_handling [of demo_env "''demo''" "Some ''main''" ?held
      ?req demo_state "snd (before_try demo_env ?req demo_state)" ?g 1 ?oc ?out]
  note t3 = lock_free_after_handling [of demo_env "''demo''" "Some ''main''" ?held
      ?req ?held "snd (before_try demo_env ?req ?held)" ?g 1 ?oc ?out]
  from t1 have a: "\<not> isDeploying (snd (deploy_locked demo_env ''demo'' (Some ''main'') ?held))"
    by (rule conjunct1)
  from t1 f1 have b: "\<not> isDeploying (snd (deploy_handler demo_env ?req failing_state))" by blast
  from t2 f2 have c: "\<not> isDeploying (snd (deploy_handler demo_env ?req demo_state))" by blast
  from t3 bt have h: "\<not> isDeploying (snd (deploy_handler demo_env ?req ?held))" by blast
  from t1 g3 have k: "\<not> isDeploying (shared (step demo_env ?g ?oc))" by blast
  have d: "fst (deploy_handler demo_env ?req failing_state)
       = Responded 500
           (JObj [(''success'', JBool False), (''error'', JStr ''Command failed with code 1: cannot npm i'')])"
    by (simp add: failing_push)
  have e: "fst (deploy_handler demo_env ?req demo_state)
       = Responded 200 (JObj [(''success'', JBool True), (''message'', JStr ''Successfully deployed demo'')])"
    by (simp add: main_push_deployed)
  from bt have bt': "fst (before_try demo_env ?req ?held) = Inr (Some ''main'')"
    by (metis fst_conv)
  from a d b e c bt' h g1 g2 k show ?thesis by (intro conjI)
qed

section \<open>What the verifier is given\<close>

lemma verified_payloads_append:
  "verified_payloads (xs @ ys) = verified_payloads xs @ verified_payloads ys"
  by (induction xs rule: verified_payloads.induct) simp_all

lemma execPromise_payloads:
  "verified_payloads (trace (snd (execPromise env c d st))) = verified_payloads (trace st)"
  by (simp add: execPromise_def verified_payloads_append split: prod.splits)

lemma run_all_payloads:
  "verified_payloads (trace (snd (run_all env d cs st))) = verified_payloads (trace st)"
proof (induction cs arbitrary: st)
  case Nil
  show ?case by simp
next
  case (Cons c cs)
  obtain r s where e: "execPromise env c d st = (r, s)" by (cases "execPromise env c d st")
  then have s: "verified_payloads (trace s) = verified_payloads (trace st)"
    using execPromise_payloads [of env c d st] by simp
  show ?case
  proof (cases r)
    case (Inl err)
    with e s show ?thesis by simp
  next
    case (Inr out)
    with e s Cons.IH [of s] show ?thesis by simp
  qed
qed

lemma deploy_try_payloads:
  "verified_payloads (trace (snd (deploy_try env name p br st))) = verified_payloads (trace st)"
proof -
  let ?cs1 = "[fetch_cmd, reset_cmd br, install_cmd]"
  obtain r1 s1 where a: "run_all env (dir p) ?cs1 st = (r1, s1)"
    by (cases "run_all env (dir p) ?cs1 st")
  with run_all_payloads [of env "dir p" ?cs1 st]
  have s1: "verified_payloads (trace s1) = verified_payloads (trace st)" by simp
  show ?thesis
  proof (cases r1)
    case (Inl e)
    with a s1 show ?thesis by (simp add: deploy_try_run_all del: run_all.simps)
  next
    case (Inr u)
    show ?thesis
    proof (cases "build_wanted env p (world s1)")
      case (Inl e)
      with a Inr s1 show ?thesis by (simp add: deploy_try_run_all del: run_all.simps)
    next
      case b: (Inr b)
      let ?cs2 = "(if b then [build_cmd] else []) @ [restart_cmd p]"
      obtain r2 s2 where c: "run_all env (dir p) ?cs2 s1 = (r2, s2)"
        by (cases "run_all env (dir p) ?cs2 s1")
      with run_all_payloads [of env "dir p" ?cs2 s1] s1
      have "verified_payloads (trace s2) = verified_payloads (trace st)" by simp
      with a Inr b c show ?thesis
        by (cases r2) (simp_all add: deploy_try_run_all del: run_all.simps)
    qed
  qed
qed

lemma deployProject_payloads:
  "verified_payloads (trace (snd (deployProject env name br st))) = verified_payloads (trace st)"
proof (cases "PROJECTS_get (PROJECTS env) name")
  case (Own p)
  obtain r s where t: "deploy_try env name p br st = (r, s)" by (cases "deploy_try env name p br st")
  with deploy_try_payloads [of env name p br st]
  have "verified_payloads (trace s) = verified_payloads (trace st)" by simp
  with Own t execPromise_payloads [of env "restart_cmd p" "dir p" s] show ?thesis
    by (cases r) (simp_all add: deployProject_def)
qed (simp_all add: deployProject_def)

lemma deploy_locked_payloads:
  "verified_payloads (trace (snd (deploy_locked env name br st))) = verified_payloads (trace st)"
proof (cases "isDeploying st")
  case True
  then show ?thesis by (simp add: deploy_locked_def acquireLock_def releaseLock_def)
next
  case False
  let ?b = "case br of None \<Rightarrow> ''main'' | Some b \<Rightarrow> b"
  obtain r s where d: "deployProject env name ?b (st\<lparr>isDeploying := True\<rparr>) = (r, s)"
    by (cases "deployProject env name ?b (st\<lparr>isDeploying := True\<rparr>)")
  with deployProject_payloads [of env name ?b "st\<lparr>isDeploying := True\<rparr>"]
  have "verified_payloads (trace s) = verified_payloads (trace st)" by simp
  with False d show ?thesis
    by (cases r) (simp_all add: deploy_locked_def acquireLock_def releaseLock_def)
qed

lemma before_try_payloads:
  assumes "PROJECTS_get (PROJECTS env) (projectName req) \<noteq> Absent" and "truthy (signature req)"
  shows "verified_payloads (trace (snd (before_try env req st)))
           = verified_payloads (trace st) @ [JSON_stringify env (body req)]"
  using assms
  by (simp add: before_try_def Let_def verified_payloads_append split: sum.splits bool.splits)

text \<open>
  Claim C2, as amended. For every inbound deploy request that reaches the verifier (a
  project found, a signature header present), the payload given to the verifier is
  \<^verbatim>\<open>JSON.stringify\<close> of the body that the framework parsed from the bytes on the wire,
  that is a re-serialization of the body and not the bytes themselves.
\<close>

theorem payload_is_reserialized:
  assumes "express_json env (raw_body wreq) = Some parsed"
      and "PROJECTS_get (PROJECTS env) (url_name wreq) \<noteq> Absent"
      and "truthy (signature_header wreq)"
  shows "verified_payloads (trace (snd (deploy_endpoint env wreq st)))
           = verified_payloads (trace st) @ [JSON_stringify env parsed]"
proof -
  let ?req = "\<lparr>projectName = url_name wreq, signature = signature_header wreq, body = parsed\<rparr>"
  have b: "verified_payloads (trace (snd (before_try env ?req st)))
           = verified_payloads (trace st) @ [JSON_stringify env parsed]"
    using assms(2,3) before_try_payloads [of env ?req st] by simp
  obtain r st1 where bt: "before_try env ?req st = (r, st1)" by (cases "before_try env ?req st")
  have "verified_payloads (trace (snd (deploy_handler env ?req st)))
           = verified_payloads (trace st) @ [JSON_stringify env parsed]"
  proof (cases r)
    case (Inl out)
    with bt b show ?thesis by (simp add: deploy_handler_def)
  next
    case (Inr br)
    with bt b deploy_locked_payloads [of env "url_name wreq" br st1] show ?thesis
      by (simp add: deploy_handler_def)
  qed
  with assms(1) show ?thesis by (simp add: deploy_endpoint_def)
qed


text \<open>The two wire bodies parse to the same value, which serializes to the compact one.\<close>

lemma parse_compact: "json_parse compact_body = Inr (push ''refs/heads/main'')"
  by (simp add: json_parse_def compact_body_def push_def skip_space_def is_space_def numeric_key_def)

lemma parse_spaced: "json_parse spaced_body = Inr (push ''refs/heads/main'')"
  by (simp add: json_parse_def spaced_body_def push_def skip_space_def is_space_def numeric_key_def)

lemma stringify_push: "json_stringify (push ''refs/heads/main'') = JStr compact_body"
  by (simp add: json_stringify_def push_def json_quote_def json_escape_def compact_body_def)

lemma compact_not_spaced: "compact_body \<noteq> spaced_body"
  by (simp add: compact_body_def spaced_body_def)

lemma express_json_demo:
  "express_json demo_env compact_body = Some (push ''refs/heads/main'')"
  "express_json demo_env spaced_body = Some (push ''refs/heads/main'')"
  by (simp_all add: express_json_def demo_env_def parse_compact parse_spaced)
    (simp_all add: push_def compact_body_def spaced_body_def)

text \<open>A request with the compact body, signed over its bytes.\<close>

theorem payload_is_reserialized_witness:
  "express_json demo_env (raw_body (signed_wire_request ''demo'' compact_body))
     = Some (push ''refs/heads/main'')
   \<and> PROJECTS_get (PROJECTS demo_env) (url_name (signed_wire_request ''demo'' compact_body)) \<noteq> Absent
   \<and> truthy (signature_header (signed_wire_request ''demo'' compact_body))
   \<and> verified_payloads (trace (snd (deploy_endpoint demo_env
         (signed_wire_request ''demo'' compact_body) demo_state)))
       = [JSON_stringify demo_env (push ''refs/heads/main'')]"
proof -
  let ?w = "signed_wire_request ''demo'' compact_body"
  have h1: "express_json demo_env (raw_body ?w) = Some (push ''refs/heads/main'')"
    by (simp add: signed_wire_request_def express_json_demo)
  have h2: "PROJECTS_get (PROJECTS demo_env) (url_name ?w) \<noteq> Absent"
    by (simp add: signed_wire_request_def demo_env_def PROJECTS_get_def)
  have h3: "truthy (signature_header ?w)"
    by (simp add: signed_wire_request_def expectedSignature_not_Nil)
  have "verified_payloads (trace demo_state) = []" by (simp add: demo_state_def)
  with payload_is_reserialized [OF h1 h2 h3, of demo_state]
  have "verified_payloads (trace (snd (deploy_endpoint demo_env ?w demo_state)))
       = [JSON_stringify demo_env (push ''refs/heads/main'')]" by simp
  with h1 h2 h3 show ?thesis by (intro conjI)
qed

text \<open>
  As the claim words it, over the exact bytes received, it fails: for the body sent
  with a space after the colon, and the token computed over those bytes, the verifier
  is given the compact serialization, other bytes, and the request is answered 401.
\<close>

theorem raw_bytes_counterexample:
  "raw_body (signed_wire_request ''demo'' spaced_body) = spaced_body
   \<and> signature_header (signed_wire_request ''demo'' spaced_body)
       = JStr (expectedSignature demo_hmac ''s3cr3t'' spaced_body)
   \<and> verified_payloads (trace (snd (deploy_endpoint demo_env
         (signed_wire_request ''demo'' spaced_body) demo_state)))
       = [JStr compact_body]
   \<and> compact_body \<noteq> spaced_body
   \<and> fst (deploy_endpoint demo_env (signed_wire_request ''demo'' spaced_body) demo_state)
       = invalid_signature"
proof -
  let ?w = "signed_wire_request ''demo'' spaced_body"
  have a: "raw_body ?w = spaced_body" by (simp add: signed_wire_request_def)
  have b: "signature_header ?w = JStr (expectedSignature demo_hmac ''s3cr3t'' spaced_body)"
    by (simp add: signed_wire_request_def)
  have ne: "expectedSignature demo_hmac ''s3cr3t'' spaced_body
              \<noteq> expectedSignature demo_hmac ''s3cr3t'' compact_body"
    by (simp add: expectedSignature_def demo_hmac_def compact_body_def spaced_body_def)
  have ep: "deploy_endpoint demo_env ?w demo_state =
      deploy_handler demo_env
        \<lparr>projectName = ''demo'',
         signature = JStr (expectedSignature demo_hmac ''s3cr3t'' spaced_body),
         body = push ''refs/heads/main''\<rparr> demo_state"
    by (simp add: deploy_endpoint_def signed_wire_request_def express_json_demo)
  have run: "deploy_endpoint demo_env ?w demo_state =
      (invalid_signature,
       demo_state\<lparr>trace := [Verify (JStr compact_body)
          (JStr (expectedSignature demo_hmac ''s3cr3t'' spaced_body)) (JStr ''s3cr3t'')]\<rparr>)"
    unfolding ep using ne
    by (simp add: deploy_handler_def before_try_def Let_def demo_env_def
        PROJECTS_get_def demo_project_def stringify_push verify_strings
        expectedSignature_not_Nil demo_state_def)
  from run have c: "verified_payloads (trace (snd (deploy_endpoint demo_env ?w demo_state)))
       = [JStr compact_body]" by simp
  from run have d: "fst (deploy_endpoint demo_env ?w demo_state) = invalid_signature" by simp
  from a b c compact_not_spaced d show ?thesis by (intro conjI)
qed

section \<open>The branch derivation\<close>

lemma replace_first_absent:
  "occurrences pat r = 0 \<Longrightarrow> replace_first pat [] r = r"
  by (induction r) (simp_all split: if_splits)

lemma replace_first_shorter:
  "pat \<noteq> [] \<Longrightarrow> 0 < occurrences pat r \<Longrightarrow> length (replace_first pat [] r) < length r"
proof (induction r)
  case Nil
  then show ?case by simp
next
  case (Cons c cs)
  show ?case
  proof (cases "prefix pat (c # cs)")
    case True
    then have "length pat \<le> length (c # cs)" by (rule prefix_length_le)
    with True Cons.prems(1) show ?thesis by (cases pat) simp_all
  next
    case False
    with Cons show ?thesis by simp
  qed
qed

lemma occurrences_prefix: "prefix pat r \<Longrightarrow> 0 < occurrences pat r"
  by (cases r) simp_all

text \<open>
  Claim C10, as amended. The branch derivation removes the first occurrence of
  \<^verbatim>\<open>refs/heads/\<close> wherever it is in the ref, and no other occurrence. The result
  differs from stripping a leading prefix exactly for the refs in which
  \<^verbatim>\<open>refs/heads/\<close> occurs but not at the start (so \<^verbatim>\<open>a/refs/heads/b\<close> yields
  \<^verbatim>\<open>a/b\<close>); for a ref that starts with it, however often it occurs, the two agree (so
  \<^verbatim>\<open>refs/heads/refs/heads/x\<close> yields \<^verbatim>\<open>refs/heads/x\<close> either way).
\<close>

theorem first_occurrence_removed:
  "(r \<noteq> [] \<longrightarrow>
      effective_branch (push r) configured = Inr (Some (replace_first ''refs/heads/'' [] r)))
   \<and> ((replace_first ''refs/heads/'' [] r \<noteq> strip_refs_heads r)
        = (0 < occurrences ''refs/heads/'' r \<and> \<not> prefix ''refs/heads/'' r))
   \<and> replace_first ''refs/heads/'' [] ''refs/heads/refs/heads/x'' = ''refs/heads/x''
   \<and> replace_first ''refs/heads/'' [] ''a/refs/heads/b'' = ''a/b''"
proof (intro conjI impI)
  assume "r \<noteq> []"
  then show "effective_branch (push r) configured = Inr (Some (replace_first ''refs/heads/'' [] r))"
    by (simp add: effective_branch_def push_def)
next
  show "(replace_first ''refs/heads/'' [] r \<noteq> strip_refs_heads r)
        = (0 < occurrences ''refs/heads/'' r \<and> \<not> prefix ''refs/heads/'' r)"
  proof (cases "prefix ''refs/heads/'' r")
    case True
    then have "replace_first ''refs/heads/'' [] r = drop (length ''refs/heads/'') r"
      by (rule replace_first_prefix)
    moreover from True have "strip_refs_heads r = drop (length ''refs/heads/'') r"
      by (simp only: strip_refs_heads_def if_True)
    ultimately show ?thesis using True by simp
  next
    case False
    then have s: "strip_refs_heads r = r" by (simp only: strip_refs_heads_def if_False)
    show ?thesis
    proof (cases "occurrences ''refs/heads/'' r = 0")
      case True
      then have "replace_first ''refs/heads/'' [] r = r" by (rule replace_first_absent)
      with s True show ?thesis by simp
    next
      case occ: False
      then have "length (replace_first ''refs/heads/'' [] r) < length r"
        by (intro replace_first_shorter) simp_all
      then have "replace_first ''refs/heads/'' [] r \<noteq> r" by auto
      with s occ False show ?thesis by simp
    qed
  qed
next
  show "replace_first ''refs/heads/'' [] ''refs/heads/refs/heads/x'' = ''refs/heads/x''" by simp
next
  show "replace_first ''refs/heads/'' [] ''a/refs/heads/b'' = ''a/b''" by simp
qed

text \<open>The two refs of the claim, and a ref without the substring.\<close>

theorem first_occurrence_removed_witness:
  "effective_branch (push ''a/refs/heads/b'') (Some ''main'') = Inr (Some ''a/b'')
   \<and> replace_first ''refs/heads/'' [] ''a/refs/heads/b'' \<noteq> strip_refs_heads ''a/refs/heads/b''
   \<and> occurrences ''refs/heads/'' ''a/refs/heads/b'' = 1
   \<and> replace_first ''refs/heads/'' [] ''refs/heads/refs/heads/x'' = ''refs/heads/x''"
proof -
  note t = first_occurrence_removed [of "''a/refs/heads/b''" "Some ''main''"]
  have o: "occurrences ''refs/heads/'' ''a/refs/heads/b'' = 1" by simp
  have p: "\<not> prefix ''refs/heads/'' ''a/refs/heads/b''" by simp
  from t have a: "effective_branch (push ''a/refs/heads/b'') (Some ''main'')
      = Inr (Some (replace_first ''refs/heads/'' [] ''a/refs/heads/b''))" by simp
  from t have e: "replace_first ''refs/heads/'' [] ''a/refs/heads/b'' = ''a/b''" by blast
  from a e have a': "effective_branch (push ''a/refs/heads/b'') (Some ''main'') = Inr (Some ''a/b'')"
    by simp
  from t o p have b: "replace_first ''refs/heads/'' [] ''a/refs/heads/b'' \<noteq> strip_refs_heads ''a/refs/heads/b''"
    by simp
  from t have c: "replace_first ''refs/heads/'' [] ''refs/heads/refs/heads/x'' = ''refs/heads/x''"
    by blast
  from a' b o c show ?thesis by (intro conjI)
qed

text \<open>
  As the claim words it, it fails at its own first example: in
  \<^verbatim>\<open>refs/heads/refs/heads/x\<close> the substring occurs twice, not exactly once as a
  leading prefix, and yet the effective branch is what stripping the leading prefix
  gives.
\<close>

theorem first_occurrence_counterexample:
  "occurrences ''refs/heads/'' ''refs/heads/refs/heads/x'' = 2
   \<and> effective_branch (push ''refs/heads/refs/heads/x'') (Some ''main'')
       = Inr (Some (strip_refs_heads ''refs/heads/refs/heads/x''))
   \<and> strip_refs_heads ''refs/heads/refs/heads/x'' = ''refs/heads/x''"
  by (simp add: effective_branch_def push_def strip_refs_heads_def)

section \<open>Requests in flight together: the lock\<close>

text \<open>
  What the lock does do: a request that reaches \<^verbatim>\<open>acquireLock()\<close> while the lock is held
  is rejected with the in-progress error, and the lock is still held at that moment.
\<close>

lemma busy_request_rejected:
  assumes "isDeploying (shared g)" and "phases g i = NotStarted"
      and "before_try env req (shared g) = (Inr br, s)"
  shows "phases (step env g (Arrive i req)) i
           = AtAcquire (Inl (Error ''Another deployment is in progress'')) (projectName req) br
         \<and> isDeploying (shared (step env g (Arrive i req)))"
proof -
  from assms(3) have "isDeploying s = isDeploying (shared g)"
    using before_try_effect by blast
  with assms show ?thesis by (simp add: step_def acquireLock_def)
qed

text \<open>
  The continuation of that rejected request is the \<^verbatim>\<open>catch\<close> block of the handler,
  which calls \<^verbatim>\<open>releaseLock()\<close>: the lock is free afterwards, whoever held it.
\<close>

lemma rejected_request_frees_lock:
  assumes "phases g i = AtAcquire (Inl e) name br"
  shows "\<not> isDeploying (shared (step env g (Resume i)))
         \<and> phases (step env g (Resume i)) i = Finished (Responded 500 (failure e))
         \<and> (\<forall>j. j \<noteq> i \<longrightarrow> phases (step env g (Resume i)) j = phases g j)"
  using assms by (simp add: step_def releaseLock_def)

lemmas step_simps =
  run_def step_def idle_def start_deploy_def handler_simps demo_env_def demo_project_def
  demo_disk_def PROJECTS_get_def active_def

text \<open>
  Claim C1 at three requests for the configured project, each with a valid token for
  the configured branch: the first acquires the lock and starts its pipeline; the second
  arrives meanwhile, is rejected with the in-progress error, and its \<^verbatim>\<open>catch\<close> block
  releases the lock that the first holds; the third then acquires the lock and starts
  its pipeline while the first is still executing.
\<close>

theorem two_pipelines_active:
  "phases (run demo_env (idle demo_disk)
       [Arrive 1 (signed_request ''demo'' (push ''refs/heads/main'')), Resume 1]) 1
     = InTry Fetch ''demo'' demo_project ''main''
   \<and> isDeploying (shared (run demo_env (idle demo_disk)
       [Arrive 1 (signed_request ''demo'' (push ''refs/heads/main'')), Resume 1]))
   \<and> phases (run demo_env (idle demo_disk)
       [Arrive 1 (signed_request ''demo'' (push ''refs/heads/main'')), Resume 1,
        Arrive 2 (signed_request ''demo'' (push ''refs/heads/main'')), Resume 2]) 2
     = Finished (Responded 500
         (JObj [(''success'', JBool False), (''error'', JStr ''Another deployment is in progress'')]))
   \<and> in_pipeline (phases (run demo_env (idle demo_disk)
       [Arrive 1 (signed_request ''demo'' (push ''refs/heads/main'')), Resume 1,
        Arrive 2 (signed_request ''demo'' (push ''refs/heads/main'')), Resume 2]) 1)
   \<and> \<not> isDeploying (shared (run demo_env (idle demo_disk)
       [Arrive 1 (signed_request ''demo'' (push ''refs/heads/main'')), Resume 1,
        Arrive 2 (signed_request ''demo'' (push ''refs/heads/main'')), Resume 2]))
   \<and> active (run demo_env (idle demo_disk)
       [Arrive 1 (signed_request ''demo'' (push ''refs/heads/main'')), Resume 1,
        Arrive 2 (signed_request ''demo'' (push ''refs/heads/main'')), Resume 2,
        Arrive 3 (signed_request ''demo'' (push ''refs/heads/main'')), Resume 3]) [1, 2, 3]
     = [1, 3]"
  by (simp add: step_simps)

end
